theory Spec2Isabelle
  imports Complex_Main "HOL-Library.Product_Lexorder"
begin

section \<open>Data model (core/constants.py, core/models.py)\<close>

text \<open>
  Representation choices.
  \<^item> \<open>Decimal\<close> and \<open>float\<close> values (amounts, balances, confidences, ratios) are exact
    rationals; the binary rounding of the pandas float columns is not modelled.
  \<^item> A \<open>datetime\<close> is its calendar fields and the second of the day; \<open>toordinal\<close> is
    the proleptic Gregorian day number of Python's \<open>date.toordinal\<close>.
  \<^item> The derived key \<open>year_month\<close> (\<open>strftime("%Y-%m")\<close>) is the pair (year, month);
    for four-digit years the lexicographic order of the pairs is the order of the strings.
  \<^item> Descriptions are ASCII strings.
  \<^item> The objects of a batch are distinct; a transaction is identified by its position in
    the batch, which stands for Python's object identity (\<open>other is transaction\<close>).
\<close>

datatype FlowType = INCOME | EXPENSE | INTERNAL_TRANSFER | EXCLUDED

record datetime =
  dt_year :: int
  dt_month :: int
  dt_day :: int
  dt_second :: int

type_synonym ym = "int \<times> int"

record Transaction =
  date :: datetime
  description :: string
  amount :: rat
  balance :: rat
  raw_type :: string
  flow_type :: "FlowType option"
  category :: "string option"
  subcategory :: "string option"
  confidence :: rat
  has_pair :: bool
  pair_id :: "(datetime \<times> rat) option"
  user_verified :: bool
  user_category :: "string option"

record CategorizationResult =
  r_flow_type :: FlowType
  r_category :: string
  r_confidence :: rat
  r_method :: string

record MonthlyMetrics =
  month :: ym
  gross_income :: rat
  true_expenses :: rat
  net_cash_flow :: rat
  internal_transfers_out :: rat
  internal_transfers_in :: rat
  excluded_payments :: rat
  savings_rate :: rat
  expense_ratio :: rat
  income_by_category :: "(string \<times> rat) list"
  expense_by_category :: "(string \<times> rat) list"
  transaction_count :: nat
  largest_expense :: rat
  largest_income :: rat
  daily_burn_rate :: rat
  starting_balance :: rat
  ending_balance :: rat
  calculated_change :: rat
  actual_change :: rat
  reconciliation_diff :: rat

datatype py_error = UnboundLocalError | KeyError

definition CONFIDENCE_HIGH :: rat where "CONFIDENCE_HIGH = 9 / 10"
definition CONFIDENCE_MEDIUM :: rat where "CONFIDENCE_MEDIUM = 7 / 10"
definition CONFIDENCE_LOW :: rat where "CONFIDENCE_LOW = 5 / 10"
definition TRANSFER_MATCH_DAYS :: int where "TRANSFER_MATCH_DAYS = 3"
definition TRANSFER_AMOUNT_TOLERANCE :: rat where "TRANSFER_AMOUNT_TOLERANCE = 1 / 100"

text \<open>\<open>Transaction.__post_init__\<close>: the month key derived from the date.\<close>

definition year_month :: "Transaction \<Rightarrow> ym" where
  "year_month t = (dt_year (date t), dt_month (date t))"

text \<open>The property \<open>Transaction.abs_amount\<close>.\<close>

definition abs_amount :: "Transaction \<Rightarrow> rat" where
  "abs_amount t = \<bar>amount t\<bar>"

subsection \<open>Dates\<close>

definition is_leap :: "int \<Rightarrow> bool" where
  "is_leap y = ((y mod 4 = 0 \<and> y mod 100 \<noteq> 0) \<or> y mod 400 = 0)"

definition days_before_year :: "int \<Rightarrow> int" where
  "days_before_year y = (y - 1) * 365 + (y - 1) div 4 - (y - 1) div 100 + (y - 1) div 400"

definition days_before_month :: "int \<Rightarrow> int \<Rightarrow> int" where
  "days_before_month y m =
     (if m \<le> 1 then 0 else if m = 2 then 31
      else (if m = 3 then 59 else if m = 4 then 90 else if m = 5 then 120
            else if m = 6 then 151 else if m = 7 then 181 else if m = 8 then 212
            else if m = 9 then 243 else if m = 10 then 273 else if m = 11 then 304
            else 334) + (if is_leap y then 1 else 0))"

definition toordinal :: "datetime \<Rightarrow> int" where
  "toordinal d = days_before_year (dt_year d) + days_before_month (dt_year d) (dt_month d) + dt_day d"

text \<open>The instant as a count of seconds; it orders datetimes as Python compares them.\<close>

definition stamp :: "datetime \<Rightarrow> int" where
  "stamp d = toordinal d * 86400 + dt_second d"

text \<open>\<open>(a - b).days\<close>: a timedelta is normalised with a non-negative seconds part, so its
  \<open>days\<close> is the floor of the difference in days.\<close>

definition delta_days :: "datetime \<Rightarrow> datetime \<Rightarrow> int" where
  "delta_days a b = (stamp a - stamp b) div 86400"

subsection \<open>Regular expressions of the pattern tables\<close>

text \<open>
  The patterns of the three tables used by the flow classifier are built from literal
  characters, \<open>.\<close>, \<open>.*\<close> and backslash-escaped punctuation only. \<open>re_compile\<close> reads that
  fragment, \<open>re_search\<close> is \<open>pattern.search\<close> under \<open>re.IGNORECASE\<close>; \<open>.\<close> does not match a
  newline.
\<close>

datatype re_tok = Lit char | AnyChar | AnyStar

definition backslash :: char where "backslash = CHR 0x5C"
definition newline :: char where "newline = CHR 0x0A"

fun re_compile :: "string \<Rightarrow> re_tok list" where
  "re_compile [] = []"
| "re_compile [c] = (if c = CHR ''.'' then [AnyChar] else [Lit c])"
| "re_compile (c # d # ds) =
     (if c = backslash then Lit d # re_compile ds
      else if c = CHR ''.'' \<and> d = CHR ''*'' then AnyStar # re_compile ds
      else if c = CHR ''.'' then AnyChar # re_compile (d # ds)
      else Lit c # re_compile (d # ds))"

definition upper_char :: "char \<Rightarrow> char" where
  "upper_char c =
     (case map_of (zip ''abcdefghijklmnopqrstuvwxyz'' ''ABCDEFGHIJKLMNOPQRSTUVWXYZ'') c of
        Some u \<Rightarrow> u | None \<Rightarrow> c)"

definition upper :: "string \<Rightarrow> string" where
  "upper s = map upper_char s"

fun re_match :: "re_tok list \<Rightarrow> string \<Rightarrow> bool" where
  "re_match [] s = True"
| "re_match (Lit c # r) [] = False"
| "re_match (Lit c # r) (x # xs) = (upper_char c = upper_char x \<and> re_match r xs)"
| "re_match (AnyChar # r) [] = False"
| "re_match (AnyChar # r) (x # xs) = (x \<noteq> newline \<and> re_match r xs)"
| "re_match (AnyStar # r) [] = re_match r []"
| "re_match (AnyStar # r) (x # xs) =
     (re_match r (x # xs) \<or> (x \<noteq> newline \<and> re_match (AnyStar # r) xs))"

fun re_search :: "re_tok list \<Rightarrow> string \<Rightarrow> bool" where
  "re_search p [] = re_match p []"
| "re_search p (x # xs) = (re_match p (x # xs) \<or> re_search p xs)"

type_synonym pattern_table = "(string \<times> re_tok list list) list"

text \<open>\<open>_compile_patterns\<close>: the categories in the order of the dict, each with its patterns.\<close>

definition compile_patterns :: "(string \<times> string list) list \<Rightarrow> pattern_table" where
  "compile_patterns category_dict = map (\<lambda>(c, ps). (c, map re_compile ps)) category_dict"

text \<open>The nested loop shared by the four pattern checks: the category of the first
  pattern, in table order, that is found in the description.\<close>

fun first_match :: "pattern_table \<Rightarrow> string \<Rightarrow> string option" where
  "first_match [] s = None"
| "first_match ((c, ps) # rest) s =
     (if list_ex (\<lambda>p. re_search p s) ps then Some c else first_match rest s)"

subsection \<open>Pattern tables (core/constants.py)\<close>

definition INCOME_CATEGORIES :: "(string \<times> string list) list" where
  "INCOME_CATEGORIES =
    [(''Salary'',
       [''DIRECT DEP.*PAYROLL'', ''ADP.*CREDIT'', ''GUSTO'', ''PAYROLL'', ''SALARY'',
        ''SEQUOIA ONE PEO.*EDI PYMNTS'', ''EDI PYMNTS'', ''PEO.*PAYROLL'']),
     (''Government_Benefits'',
       [''APA.*TREAS.*310.*MISC PAY'', ''WA ST EMPLOY SEC.*UI BENEFIT'', ''UNEMPLOYMENT'',
        ''UI BENEFIT'', ''STATE.*BENEFIT'']),
     (''Freelance'',
       [''ZELLE FROM'', ''VENMO FROM'', ''PAYPAL.*CREDIT'', ''CASH APP.*FROM'',
        ''FORTE LABS.*RECEIVABLE'', ''RECEIVABLE'']),
     (''Investment_Income'',
       [''DIVIDEND'', ''INTEREST PAYMENT'', ''CAPITAL GAIN'', ''INVESTMENT.*INCOME'',
        ''COINBASE.*INC'', ''COINBASE'' @ [backslash] @ ''.COM'', ''COINBASE'', ''SOLIUM.*INC'',
        ''STOCK.*OPTION'', ''RSU.*VESTING'']),
     (''Bank_Transfers'',
       [''GOLDMAN SACHS.*P2P'', ''FEDWIRE CREDIT'', ''BOOK TRANSFER CREDIT'', ''P2P.*PAYMENT'',
        ''SANTANDER BANK.*PAYMENT'']),
     (''Deposits'',
       [''REMOTE.*ONLINE.*DEPOSIT'', ''CHECK.*DEPOSIT'', ''DEPOSIT.*'' @ [backslash] @ ''#'',
        ''ATM CASH DEPOSIT'', ''DEPOSIT ID NUMBER'']),
     (''Venmo_Transfers'', [''VENMO.*CASHOUT'', ''VENMO.*PAYMENT.*FROM'']),
     (''Tax_Refund'', [''IRS.*TREAS'', ''STATE.*REFUND'', ''TAX REF'', ''TREASURY.*REFUND'']),
     (''Reimbursement'', [''EXPENSE REIMB'', ''REFUND'', ''REIMB'', ''RETURN'', ''FEE REVERSAL'']),
     (''Gift'', [''GIFT'', ''BIRTHDAY'', ''WEDDING'']),
     (''Other_Income'', [])]"

definition INTERNAL_TRANSFER_CATEGORIES :: "(string \<times> string list) list" where
  "INTERNAL_TRANSFER_CATEGORIES =
    [(''To_Savings'', [''TRANSFER TO.*SAV'', ''ONLINE TRANSFER TO SAV'', ''SAVINGS TRANSFER'']),
     (''From_Savings'', [''TRANSFER FROM.*SAV'', ''ONLINE TRANSFER FROM SAV'']),
     (''To_Investment'',
       [''CHARLES SCHWAB'', ''SCHWAB'', ''FIDELITY'', ''VANGUARD.*BUY'', ''VANGUARD'',
        ''INTERACTIVE.*BROK'', ''E'' @ [backslash] @ ''*TRADE'', ''ETRADE'', ''ROBINHOOD'',
        ''BETTERMENT'', ''WEALTHFRONT'']),
     (''To_External_Checking'', [''TRANSFER TO.*CHK'', ''EXTERNAL TRANSFER'', ''WIRE TRANSFER OUT'']),
     (''From_External_Checking'',
       [''TRANSFER FROM.*CHK'', ''WIRE TRANSFER IN'', ''REMOTE.*ONLINE.*DEPOSIT'']),
     (''Treasury_Direct'', [''TREASURYDIRECT'', ''US TREASURY'', ''TREASURY DIRECT'']),
     (''Personal_Transfers'',
       [''ZELLE PAYMENT TO'', ''ZELLE PAYMENT FROM'', ''VENMO PAYMENT'', ''VENMO.*CASHOUT'',
        ''P2P.*PAYMENT''])]"

definition EXCLUDED_CATEGORIES :: "(string \<times> string list) list" where
  "EXCLUDED_CATEGORIES =
    [(''Credit_Card_Payment'',
       [''CHASE CARD.*PAYMENT'', ''CHASE CREDIT CRD'', ''CHASE CREDIT CRD AUTOPAY'',
        ''Payment to Chase card'', ''AMEX.*PAYMENT'', ''AMERICAN EXPRESS.*PAYMENT'',
        ''DISCOVER.*PAYMENT'', ''CAPITAL ONE.*PAYMENT'', ''CAPITAL ONE.*PMT'',
        ''CAPITAL ONE.*CRCARDPMT'', ''CAPITAL ONE ONLINE PMT'', ''CAPITAL ONE MOBILE PMT'',
        ''CITI.*PAYMENT'', ''BARCLAYS.*PAYMENT'', ''CREDIT CARD PAYMENT'']),
     (''Loan_Payment'',
       [''LOAN PAYMENT'', ''AUTO LOAN'', ''CAR LOAN'', ''STUDENT LOAN'', ''PERSONAL LOAN'',
        ''NAVIENT'', ''NELNET'', ''SOFI.*LOAN'']),
     (''Mortgage_Payment'',
       [''MORTGAGE PAYMENT'', ''ONLINE PAYMENT.*TO MORTGAGE'', ''PAYMENT.*TO MORTGAGE''])]"

section \<open>Flow classifier (categorization/flow_classifier.py)\<close>

text \<open>
  The classifier's state is \<open>all_transactions\<close>, the batch; \<open>classify\<close> and the functions it
  calls take the batch and the position of the transaction, and return the batch with
  the pairing marks they set.
\<close>

definition excluded_patterns :: pattern_table where
  "excluded_patterns = compile_patterns EXCLUDED_CATEGORIES"

definition transfer_patterns :: pattern_table where
  "transfer_patterns = compile_patterns INTERNAL_TRANSFER_CATEGORIES"

definition income_patterns :: pattern_table where
  "income_patterns = compile_patterns INCOME_CATEGORIES"

definition is_excluded :: "Transaction \<Rightarrow> bool" where
  "is_excluded t = (first_match excluded_patterns (upper (description t)) \<noteq> None)"

definition get_excluded_category :: "Transaction \<Rightarrow> string" where
  "get_excluded_category t =
     (case first_match excluded_patterns (upper (description t)) of
        Some c \<Rightarrow> c | None \<Rightarrow> ''Excluded_Other'')"

definition check_income_patterns :: "Transaction \<Rightarrow> CategorizationResult option" where
  "check_income_patterns t =
     (case first_match income_patterns (upper (description t)) of
        Some c \<Rightarrow> Some \<lparr>r_flow_type = INCOME, r_category = c,
                         r_confidence = CONFIDENCE_HIGH, r_method = ''income_pattern''\<rparr>
      | None \<Rightarrow> None)"

text \<open>The scan of \<open>_find_transfer_pair\<close>: \<open>j\<close> is the position of \<open>other\<close> in the batch.
  Nothing is written before a match is found, so the scan reads the batch as it was.\<close>

fun scan_pair :: "Transaction \<Rightarrow> nat \<Rightarrow> nat \<Rightarrow> Transaction list \<Rightarrow> nat option" where
  "scan_pair t i j [] = None"
| "scan_pair t i j (other # rest) =
     (if j = i then scan_pair t i (Suc j) rest
      else if has_pair other then scan_pair t i (Suc j) rest
      else if \<bar>delta_days (date other) (date t)\<bar> > TRANSFER_MATCH_DAYS
        then scan_pair t i (Suc j) rest
      else if \<bar>amount other - (- amount t)\<bar> \<le> TRANSFER_AMOUNT_TOLERANCE then Some j
      else scan_pair t i (Suc j) rest)"

definition mark_pair :: "Transaction \<Rightarrow> Transaction \<Rightarrow> Transaction" where
  "mark_pair t other = t\<lparr>has_pair := True, pair_id := Some (date other, amount other)\<rparr>"

definition find_transfer_pair :: "Transaction list \<Rightarrow> nat \<Rightarrow> nat option \<times> Transaction list" where
  "find_transfer_pair all i =
     (if all = [] then (None, all)
      else (case scan_pair (all ! i) i 0 all of
              None \<Rightarrow> (None, all)
            | Some j \<Rightarrow>
                (Some j, all[i := mark_pair (all ! i) (all ! j),
                             j := mark_pair (all ! j) (all ! i)])))"

definition check_internal_transfer ::
  "Transaction list \<Rightarrow> nat \<Rightarrow> CategorizationResult option \<times> Transaction list" where
  "check_internal_transfer all i =
     (case first_match transfer_patterns (upper (description (all ! i))) of
        Some c \<Rightarrow>
          (let (p, all') = find_transfer_pair all i; found = (p \<noteq> None)
           in (Some \<lparr>r_flow_type = INTERNAL_TRANSFER, r_category = c,
                      r_confidence = (if found then CONFIDENCE_HIGH else CONFIDENCE_MEDIUM),
                      r_method = (if found then ''transfer_pattern_with_pair''
                                  else ''transfer_pattern'')\<rparr>, all'))
      | None \<Rightarrow>
          (let (p, all') = find_transfer_pair all i
           in (case p of
                 Some j \<Rightarrow>
                   (Some \<lparr>r_flow_type = INTERNAL_TRANSFER,
                          r_category = (if amount (all ! i) < 0 then ''To_Unknown_Account''
                                        else ''From_Unknown_Account''),
                          r_confidence = CONFIDENCE_MEDIUM,
                          r_method = ''transfer_pair_only''\<rparr>, all')
               | None \<Rightarrow> (None, all'))))"

definition classify :: "Transaction list \<Rightarrow> nat \<Rightarrow> CategorizationResult \<times> Transaction list" where
  "classify all i =
     (let t = all ! i in
      if is_excluded t
      then (\<lparr>r_flow_type = EXCLUDED, r_category = get_excluded_category t,
             r_confidence = CONFIDENCE_HIGH, r_method = ''excluded_pattern''\<rparr>, all)
      else (case (if amount t > 0 then check_income_patterns t else None) of
              Some income_result \<Rightarrow> (income_result, all)
            | None \<Rightarrow>
                (case check_internal_transfer all i of
                   (Some transfer_result, all') \<Rightarrow> (transfer_result, all')
                 | (None, all') \<Rightarrow>
                     (if amount t > 0
                      then (\<lparr>r_flow_type = INCOME, r_category = ''Uncategorized_Income'',
                             r_confidence = CONFIDENCE_HIGH, r_method = ''amount_positive''\<rparr>, all')
                      else (\<lparr>r_flow_type = EXPENSE, r_category = ''Uncategorized_Expense'',
                             r_confidence = CONFIDENCE_HIGH, r_method = ''amount_negative''\<rparr>,
                            all')))))"

text \<open>One iteration of the loop of \<open>classify_all\<close>: classify the transaction at position
  \<open>i\<close> and store the result in it.\<close>

definition classify_step :: "Transaction list \<Rightarrow> nat \<Rightarrow> Transaction list" where
  "classify_step all i =
     (let (result, all') = classify all i
      in all'[i := (all' ! i)\<lparr>flow_type := Some (r_flow_type result),
                              category := Some (r_category result),
                              confidence := r_confidence result\<rparr>])"

text \<open>\<open>classify_all\<close>: the batch becomes \<open>all_transactions\<close> and is walked in order; the
  counters and the log lines have no effect on the result.\<close>

definition classify_all :: "Transaction list \<Rightarrow> Transaction list" where
  "classify_all transactions = foldl classify_step transactions [0..<length transactions]"

definition reclassify_transaction :: "Transaction \<Rightarrow> FlowType \<Rightarrow> Transaction" where
  "reclassify_transaction t new_flow_type =
     t\<lparr>flow_type := Some new_flow_type, user_verified := True, confidence := 1\<rparr>"

text \<open>The marks of an automatic classification: a flow type, a category and one of the
  two confidences that \<open>classify\<close> gives.\<close>

definition auto_classified :: "Transaction \<Rightarrow> bool" where
  "auto_classified t =
     (flow_type t \<noteq> None \<and> category t \<noteq> None \<and> confidence t \<in> {9 / 10, 7 / 10})"

section \<open>Categorizer helper (categorization/categorizer.py)\<close>

definition get_low_confidence_transactions :: "Transaction list \<Rightarrow> rat \<Rightarrow> Transaction list" where
  "get_low_confidence_transactions transactions threshold =
     filter (\<lambda>t. confidence t < threshold) transactions"

section \<open>Cash-flow calculator (analysis/cashflow.py)\<close>

text \<open>
  \<open>_create_dataframe\<close> copies, in order, the columns date, description, amount, balance,
  flow_type, category, year_month and confidence of every transaction. The model keeps
  each row as the transaction it was built from. A frame built from no rows has no
  columns, so reading a column of it raises \<open>KeyError\<close>.
\<close>

definition create_dataframe :: "Transaction list \<Rightarrow> Transaction list" where
  "create_dataframe transactions = transactions"

definition mask :: "FlowType \<Rightarrow> Transaction list \<Rightarrow> Transaction list" where
  "mask ft df = filter (\<lambda>r. flow_type r = Some ft) df"

definition amount_sum :: "Transaction list \<Rightarrow> rat" where
  "amount_sum df = sum_list (map amount df)"

text \<open>\<open>Series.unique\<close>: the distinct values in the order of their first appearance.\<close>

definition unique :: "'a list \<Rightarrow> 'a list" where
  "unique xs = rev (remdups (rev xs))"

definition get_category_breakdown :: "Transaction list \<Rightarrow> (string \<times> rat) list" where
  "get_category_breakdown df =
     (if df = [] then []
      else map (\<lambda>c. (c, \<bar>amount_sum (filter (\<lambda>r. category r = Some c) df)\<bar>))
               (unique (List.map_filter category df)))"

definition get_days_in_month :: "ym \<Rightarrow> int" where
  "get_days_in_month key =
     (case key of (year_int, m) \<Rightarrow>
        if m = 2 then (if (year_int mod 4 = 0 \<and> year_int mod 100 \<noteq> 0) \<or> year_int mod 400 = 0
                       then 29 else 28)
        else if m \<in> set [4, 6, 9, 11] then 30
        else 31)"

text \<open>\<open>idxmin\<close> and \<open>idxmax\<close> give the first row that holds the extreme date.\<close>

definition earliest_row :: "Transaction \<Rightarrow> Transaction list \<Rightarrow> Transaction" where
  "earliest_row r rs =
     foldl (\<lambda>best x. if stamp (date x) < stamp (date best) then x else best) r rs"

definition latest_row :: "Transaction \<Rightarrow> Transaction list \<Rightarrow> Transaction" where
  "latest_row r rs =
     foldl (\<lambda>best x. if stamp (date x) > stamp (date best) then x else best) r rs"

definition get_starting_balance_from_csv :: "Transaction list \<Rightarrow> rat" where
  "get_starting_balance_from_csv month_df =
     (case month_df of [] \<Rightarrow> 0
      | r # rs \<Rightarrow> (let earliest = earliest_row r rs in balance earliest - amount earliest))"

definition get_ending_balance_from_csv :: "Transaction list \<Rightarrow> rat" where
  "get_ending_balance_from_csv month_df =
     (case month_df of [] \<Rightarrow> 0 | r # rs \<Rightarrow> balance (latest_row r rs))"

definition list_min :: "rat list \<Rightarrow> rat" where
  "list_min xs = foldl min (hd xs) (tl xs)"

definition list_max :: "rat list \<Rightarrow> rat" where
  "list_max xs = foldl max (hd xs) (tl xs)"

text \<open>
  \<open>_calculate_month_metrics\<close>. The names \<open>starting_balance\<close>, \<open>ending_balance\<close> and
  \<open>actual_change\<close> are assigned only in the branch where a balance is available; the
  other branch assigns \<open>reconciliation_diff\<close> alone, and the constructor call that
  follows reads the three unassigned locals, which raises \<open>UnboundLocalError\<close>.
\<close>

definition calculate_month_metrics :: "Transaction list \<Rightarrow> ym \<Rightarrow> py_error + MonthlyMetrics" where
  "calculate_month_metrics month_df key =
     (let income_rows = mask INCOME month_df;
          expense_rows = mask EXPENSE month_df;
          transfer_out_rows = filter (\<lambda>r. amount r < 0) (mask INTERNAL_TRANSFER month_df);
          transfer_in_rows = filter (\<lambda>r. amount r > 0) (mask INTERNAL_TRANSFER month_df);
          excluded_rows = mask EXCLUDED month_df;
          gross_income' = amount_sum income_rows;
          true_expenses' = \<bar>amount_sum expense_rows\<bar>;
          internal_transfers_out' = \<bar>amount_sum transfer_out_rows\<bar>;
          internal_transfers_in' = amount_sum transfer_in_rows;
          excluded_payments' = \<bar>amount_sum excluded_rows\<bar>;
          net_cash_flow' = gross_income' - true_expenses';
          savings_rate' = (if gross_income' > 0
                           then (internal_transfers_out' / gross_income') * 100 else 0);
          expense_ratio' = (if gross_income' > 0
                            then (true_expenses' / gross_income') * 100 else 0);
          income_by_category' = get_category_breakdown income_rows;
          expense_by_category' = get_category_breakdown expense_rows;
          transaction_count' = length month_df;
          largest_expense' = (if length expense_rows > 0
                              then \<bar>list_min (map amount expense_rows)\<bar> else 0);
          largest_income' = (if length income_rows > 0
                             then list_max (map amount income_rows) else 0);
          days_in_month = get_days_in_month key;
          daily_burn_rate' = (if days_in_month > 0
                              then true_expenses' / of_int days_in_month else 0);
          calculated_change' = amount_sum month_df;
          csv_balance_available = (month_df \<noteq> [] \<and> list_ex (\<lambda>r. balance r \<noteq> 0) month_df)
      in if csv_balance_available
         then (let starting_balance' = get_starting_balance_from_csv month_df;
                   ending_balance' = get_ending_balance_from_csv month_df;
                   actual_change' = ending_balance' - starting_balance';
                   reconciliation_diff' = \<bar>calculated_change' - actual_change'\<bar>
               in Inr \<lparr>month = key,
                       gross_income = gross_income',
                       true_expenses = true_expenses',
                       net_cash_flow = net_cash_flow',
                       internal_transfers_out = internal_transfers_out',
                       internal_transfers_in = internal_transfers_in',
                       excluded_payments = excluded_payments',
                       savings_rate = savings_rate',
                       expense_ratio = expense_ratio',
                       income_by_category = income_by_category',
                       expense_by_category = expense_by_category',
                       transaction_count = transaction_count',
                       largest_expense = largest_expense',
                       largest_income = largest_income',
                       daily_burn_rate = daily_burn_rate',
                       starting_balance = starting_balance',
                       ending_balance = ending_balance',
                       calculated_change = calculated_change',
                       actual_change = actual_change',
                       reconciliation_diff = reconciliation_diff'\<rparr>)
         else Inl UnboundLocalError)"

text \<open>The loop over the months stops at the first month whose metrics raise.\<close>

fun collect :: "('e + 'a) list \<Rightarrow> 'e + 'a list" where
  "collect [] = Inr []"
| "collect (Inl e # xs) = Inl e"
| "collect (Inr v # xs) = (case collect xs of Inl e \<Rightarrow> Inl e | Inr vs \<Rightarrow> Inr (v # vs))"

definition month_keys :: "Transaction list \<Rightarrow> ym list" where
  "month_keys df = sort (remdups (map year_month df))"

definition calculate_monthly_metrics :: "Transaction list \<Rightarrow> py_error + MonthlyMetrics list" where
  "calculate_monthly_metrics transactions =
     (let df = create_dataframe transactions
      in if df = [] then Inl KeyError
         else collect (map (\<lambda>key. calculate_month_metrics
                                    (filter (\<lambda>r. year_month r = key) df) key)
                           (month_keys df)))"

subsection \<open>Summary metrics\<close>

record Summary =
  period :: string
  total_income :: rat
  total_expenses :: rat
  total_net_cash_flow :: rat
  total_transfers_out :: rat
  total_excluded :: rat
  avg_monthly_income :: rat
  avg_monthly_expenses :: rat
  avg_monthly_net_cash_flow :: rat
  avg_monthly_savings :: rat
  overall_savings_rate :: rat
  overall_expense_ratio :: rat
  summary_transaction_count :: nat
  months_span :: int

text \<open>The four running totals of the loop of \<open>get_summary_metrics\<close>, in the order
  income, expenses, transfers out, excluded.\<close>

definition summary_step :: "rat \<times> rat \<times> rat \<times> rat \<Rightarrow> Transaction \<Rightarrow> rat \<times> rat \<times> rat \<times> rat" where
  "summary_step acc tr =
     (case acc of (t_inc, t_exp, t_out, t_exc) \<Rightarrow>
        if flow_type tr = Some INCOME then (t_inc + amount tr, t_exp, t_out, t_exc)
        else if flow_type tr = Some EXPENSE then (t_inc, t_exp + \<bar>amount tr\<bar>, t_out, t_exc)
        else if flow_type tr = Some INTERNAL_TRANSFER \<and> amount tr < 0
          then (t_inc, t_exp, t_out + \<bar>amount tr\<bar>, t_exc)
        else if flow_type tr = Some EXCLUDED then (t_inc, t_exp, t_out, t_exc + \<bar>amount tr\<bar>)
        else acc)"

definition calculate_months_span :: "datetime \<Rightarrow> datetime \<Rightarrow> int" where
  "calculate_months_span start_date end_date =
     (let months = (dt_year end_date - dt_year start_date) * 12
                   + (dt_month end_date - dt_month start_date)
      in max 1 (months + 1))"

definition min_date :: "datetime \<Rightarrow> datetime list \<Rightarrow> datetime" where
  "min_date d ds = foldl (\<lambda>best x. if stamp x < stamp best then x else best) d ds"

definition max_date :: "datetime \<Rightarrow> datetime list \<Rightarrow> datetime" where
  "max_date d ds = foldl (\<lambda>best x. if stamp x > stamp best then x else best) d ds"

definition digit :: "int \<Rightarrow> char" where
  "digit n = ''0123456789'' ! nat (n mod 10)"

definition strftime_ymd :: "datetime \<Rightarrow> string" where
  "strftime_ymd d =
     [digit (dt_year d div 1000), digit (dt_year d div 100), digit (dt_year d div 10),
      digit (dt_year d)] @ ''-'' @ [digit (dt_month d div 10), digit (dt_month d)] @ ''-'' @
     [digit (dt_day d div 10), digit (dt_day d)]"

definition get_summary_metrics :: "Transaction list \<Rightarrow> Summary" where
  "get_summary_metrics transactions =
     (case foldl summary_step (0, 0, 0, 0) transactions of
        (total_income', total_expenses', total_transfers_out', total_excluded') \<Rightarrow>
          (let total_net_cash_flow' = total_income' - total_expenses';
               dates = map date transactions;
               date_range = (case dates of [] \<Rightarrow> None
                             | d # ds \<Rightarrow> Some (min_date d ds, max_date d ds));
               months_span' = (case date_range of None \<Rightarrow> 1
                               | Some (a, b) \<Rightarrow> calculate_months_span a b)
           in \<lparr>period = (case date_range of None \<Rightarrow> ''N/A''
                         | Some (a, b) \<Rightarrow> strftime_ymd a @ '' to '' @ strftime_ymd b),
               total_income = total_income',
               total_expenses = total_expenses',
               total_net_cash_flow = total_net_cash_flow',
               total_transfers_out = total_transfers_out',
               total_excluded = total_excluded',
               avg_monthly_income = total_income' / of_int months_span',
               avg_monthly_expenses = total_expenses' / of_int months_span',
               avg_monthly_net_cash_flow = total_net_cash_flow' / of_int months_span',
               avg_monthly_savings = total_transfers_out' / of_int months_span',
               overall_savings_rate = (if total_income' > 0
                                       then (total_transfers_out' / total_income') * 100 else 0),
               overall_expense_ratio = (if total_income' > 0
                                        then (total_expenses' / total_income') * 100 else 0),
               summary_transaction_count = length transactions,
               months_span = months_span'\<rparr>))"

section \<open>Mortgage-enhancement layer (analysis/enhanced_cashflow.py)\<close>

text \<open>A dict is an association list in insertion order: a stored key keeps its place, a new
  key goes to the end.\<close>

fun dict_set :: "('k \<times> 'v) list \<Rightarrow> 'k \<Rightarrow> 'v \<Rightarrow> ('k \<times> 'v) list" where
  "dict_set [] k v = [(k, v)]"
| "dict_set ((k', v') # rest) k v =
     (if k' = k then (k, v) # rest else (k', v') # dict_set rest k v)"

definition dict_get :: "('k \<times> 'v) list \<Rightarrow> 'k \<Rightarrow> 'v \<Rightarrow> 'v" where
  "dict_get d k dflt = (case map_of d k of Some v \<Rightarrow> v | None \<Rightarrow> dflt)"

definition add_mortgage_to_expenses :: "(string \<times> rat) list \<Rightarrow> rat \<Rightarrow> (string \<times> rat) list" where
  "add_mortgage_to_expenses expense_categories mortgage_interest =
     (if mortgage_interest \<le> 0 then expense_categories
      else dict_set expense_categories ''Housing_Interest''
             (dict_get expense_categories ''Housing_Interest'' 0 + mortgage_interest))"

text \<open>The body of the loop of \<open>calculate_enhanced_monthly_metrics\<close>;
  \<open>monthly_mortgage_interest\<close> maps a month key to the interest of that month.\<close>

definition enhance_metrics :: "(ym \<times> rat) list \<Rightarrow> MonthlyMetrics \<Rightarrow> MonthlyMetrics" where
  "enhance_metrics monthly_mortgage_interest metrics =
     (let mortgage_interest = dict_get monthly_mortgage_interest (month metrics) 0;
          enhanced_true_expenses = true_expenses metrics + mortgage_interest;
          enhanced_net_cash_flow = gross_income metrics - enhanced_true_expenses;
          enhanced_savings_rate = (if gross_income metrics > 0
                                   then enhanced_net_cash_flow / gross_income metrics * 100
                                   else 0);
          enhanced_expense_ratio = (if gross_income metrics > 0
                                    then enhanced_true_expenses / gross_income metrics * 100
                                    else 0)
      in \<lparr>month = month metrics,
          gross_income = gross_income metrics,
          true_expenses = enhanced_true_expenses,
          net_cash_flow = enhanced_net_cash_flow,
          internal_transfers_out = internal_transfers_out metrics,
          internal_transfers_in = internal_transfers_in metrics,
          excluded_payments = excluded_payments metrics,
          savings_rate = enhanced_savings_rate,
          expense_ratio = enhanced_expense_ratio,
          income_by_category = income_by_category metrics,
          expense_by_category =
            add_mortgage_to_expenses (expense_by_category metrics) mortgage_interest,
          transaction_count = transaction_count metrics,
          largest_expense = (if mortgage_interest > 0
                             then max (largest_expense metrics) mortgage_interest
                             else largest_expense metrics),
          largest_income = largest_income metrics,
          daily_burn_rate = enhanced_true_expenses / 30,
          starting_balance = starting_balance metrics,
          ending_balance = ending_balance metrics,
          calculated_change = calculated_change metrics,
          actual_change = actual_change metrics,
          reconciliation_diff = reconciliation_diff metrics\<rparr>)"

definition calculate_enhanced_monthly_metrics ::
  "Transaction list \<Rightarrow> (ym \<times> rat) list \<Rightarrow> py_error + MonthlyMetrics list" where
  "calculate_enhanced_monthly_metrics transactions monthly_mortgage_interest =
     (case calculate_monthly_metrics transactions of
        Inl e \<Rightarrow> Inl e
      | Inr base_metrics \<Rightarrow> Inr (map (enhance_metrics monthly_mortgage_interest) base_metrics))"

section \<open>Example batches\<close>

text \<open>\<open>Transaction(date, description, amount, balance, type)\<close> with the defaults of the
  dataclass for the other fields, and \<open>datetime(y, m, d)\<close>.\<close>

definition mk_date :: "int \<Rightarrow> int \<Rightarrow> int \<Rightarrow> datetime" where
  "mk_date y m d = \<lparr>dt_year = y, dt_month = m, dt_day = d, dt_second = 0\<rparr>"

definition mk_transaction :: "datetime \<Rightarrow> string \<Rightarrow> rat \<Rightarrow> rat \<Rightarrow> string \<Rightarrow> Transaction" where
  "mk_transaction d s a b ty =
     \<lparr>date = d, description = s, amount = a, balance = b, raw_type = ty,
      flow_type = None, category = None, subcategory = None, confidence = 0,
      has_pair = False, pair_id = None, user_verified = False, user_category = None\<rparr>"

text \<open>A transaction built with \<open>flow_type\<close> and \<open>category\<close> given, as the calculator's tests
  build them.\<close>

definition mk_classified ::
  "datetime \<Rightarrow> string \<Rightarrow> rat \<Rightarrow> rat \<Rightarrow> FlowType \<Rightarrow> string \<Rightarrow> Transaction" where
  "mk_classified d s a b ft c =
     (mk_transaction d s a b ''DEBIT'')\<lparr>flow_type := Some ft, category := Some c\<rparr>"

text \<open>A card payment whose description also matches the transfer pattern
  \<open>SAVINGS TRANSFER\<close>, with an opposite amount one day later.\<close>

definition card_batch :: "Transaction list" where
  "card_batch =
     [mk_transaction (mk_date 2024 1 15) ''Chase Card Payment Savings Transfer'' (- 1000) 2000
        ''ACH_DEBIT'',
      mk_transaction (mk_date 2024 1 16) ''INCOMING'' 1000 3000 ''ACH_CREDIT'']"

text \<open>Three transactions on consecutive days: 100 out, 100 in, 100 out.\<close>

definition chain_batch :: "Transaction list" where
  "chain_batch =
     [mk_transaction (mk_date 2024 1 14) ''MOVE OUT A'' (- 100) 900 ''DEBIT'',
      mk_transaction (mk_date 2024 1 15) ''MOVE IN B'' 100 1000 ''CREDIT'',
      mk_transaction (mk_date 2024 1 16) ''MOVE OUT C'' (- 100) 900 ''DEBIT'']"

text \<open>A purchase that the user has reclassified as income.\<close>

definition verified_tx :: Transaction where
  "verified_tx =
     reclassify_transaction
       (mk_transaction (mk_date 2024 1 15) ''CORNER SHOP'' (- 50) 950 ''DEBIT'') INCOME"

text \<open>A transaction whose confidence is exactly the medium threshold.\<close>

definition medium_tx :: Transaction where
  "medium_tx =
     (mk_classified (mk_date 2024 1 15) ''CORNER SHOP'' (- 50) 950 EXPENSE ''Other_Expense'')
       \<lparr>confidence := CONFIDENCE_MEDIUM\<rparr>"

text \<open>January 2024: an expense of 100 and a refund of 30 booked as an expense.\<close>

definition refund_batch :: "Transaction list" where
  "refund_batch =
     [mk_classified (mk_date 2024 1 5) ''HARDWARE STORE'' (- 100) 900 EXPENSE ''Shopping'',
      mk_classified (mk_date 2024 1 9) ''HARDWARE STORE CREDIT'' 30 930 EXPENSE ''Shopping'']"

text \<open>January 2024 with no balance column in the source: the loader stores balance 0.\<close>

definition no_balance_batch :: "Transaction list" where
  "no_balance_batch =
     [mk_classified (mk_date 2024 1 2) ''SALARY'' 5000 0 INCOME ''Salary'',
      mk_classified (mk_date 2024 1 3) ''RENT'' (- 1800) 0 EXPENSE ''Housing'']"

text \<open>January 2024: income 1000, a transfer of 200 to savings, rent 400.\<close>

definition january_batch :: "Transaction list" where
  "january_batch =
     [mk_classified (mk_date 2024 1 2) ''SALARY'' 1000 1500 INCOME ''Salary'',
      mk_classified (mk_date 2024 1 3) ''SAVINGS TRANSFER'' (- 200) 1300 INTERNAL_TRANSFER
        ''To_Savings'',
      mk_classified (mk_date 2024 1 4) ''RENT'' (- 400) 900 EXPENSE ''Housing'']"

definition january_interest :: "(ym \<times> rat) list" where
  "january_interest = [((2024, 1), 50)]"

definition january_base :: MonthlyMetrics where
  "january_base =
     \<lparr>month = (2024, 1), gross_income = 1000, true_expenses = 400, net_cash_flow = 600,
      internal_transfers_out = 200, internal_transfers_in = 0, excluded_payments = 0,
      savings_rate = 20, expense_ratio = 40,
      income_by_category = [(''Salary'', 1000)], expense_by_category = [(''Housing'', 400)],
      transaction_count = 3, largest_expense = 400, largest_income = 1000,
      daily_burn_rate = 400 / 31, starting_balance = 500, ending_balance = 900,
      calculated_change = 400, actual_change = 400, reconciliation_diff = 0\<rparr>"

definition january_enhanced :: MonthlyMetrics where
  "january_enhanced =
     \<lparr>month = (2024, 1), gross_income = 1000, true_expenses = 450, net_cash_flow = 550,
      internal_transfers_out = 200, internal_transfers_in = 0, excluded_payments = 0,
      savings_rate = 55, expense_ratio = 45,
      income_by_category = [(''Salary'', 1000)],
      expense_by_category = [(''Housing'', 400), (''Housing_Interest'', 50)],
      transaction_count = 3, largest_expense = 400, largest_income = 1000,
      daily_burn_rate = 15, starting_balance = 500, ending_balance = 900,
      calculated_change = 400, actual_change = 400, reconciliation_diff = 0\<rparr>"

section \<open>The flow classifier: what a pass changes\<close>

text \<open>Pairing writes \<open>has_pair\<close> and \<open>pair_id\<close> only, and never changes the length of the
  batch; a step of the pass writes the three result fields of its own transaction.\<close>

lemma length_find_transfer_pair [simp]:
  "length (snd (find_transfer_pair all i)) = length all"
  by (simp add: find_transfer_pair_def split: option.splits)

lemma map_update_same:
  "f v = f (xs ! i) \<Longrightarrow> map f (xs[i := v]) = map f xs"
  by (cases "i < length xs") (simp_all add: map_update list_update_same_conv list_update_beyond)

lemma frame_find_transfer_pair:
  assumes "\<And>t other. f (mark_pair t other) = f t"
  shows "map f (snd (find_transfer_pair all i)) = map f all"
proof (cases "scan_pair (all ! i) i 0 all")
  case None
  then show ?thesis by (simp add: find_transfer_pair_def)
next
  case (Some j)
  have "map f (all[i := mark_pair (all ! i) (all ! j), j := mark_pair (all ! j) (all ! i)])
        = map f (all[i := mark_pair (all ! i) (all ! j)])"
  proof (cases "j = i")
    case True
    then show ?thesis by (cases "i < length all") (simp_all add: assms map_update_same)
  next
    case False
    then show ?thesis by (intro map_update_same) (simp add: assms)
  qed
  also have "\<dots> = map f all" by (intro map_update_same) (simp add: assms)
  finally show ?thesis using Some by (simp add: find_transfer_pair_def)
qed

lemma length_check_internal_transfer [simp]:
  "length (snd (check_internal_transfer all i)) = length all"
proof -
  obtain p all' where fp: "find_transfer_pair all i = (p, all')" by (cases "find_transfer_pair all i")
  then have "length all' = length all" using length_find_transfer_pair [of all i] by simp
  with fp show ?thesis
    by (simp add: check_internal_transfer_def split: option.splits)
qed

lemma frame_check_internal_transfer:
  assumes "\<And>t other. f (mark_pair t other) = f t"
  shows "map f (snd (check_internal_transfer all i)) = map f all"
proof -
  obtain p all' where fp: "find_transfer_pair all i = (p, all')" by (cases "find_transfer_pair all i")
  then have "map f all' = map f all" using frame_find_transfer_pair [of f all i, OF assms] by simp
  with fp show ?thesis
    by (simp add: check_internal_transfer_def split: option.splits)
qed

lemma snd_classify_cases:
  "snd (classify all i) = all \<or> snd (classify all i) = snd (check_internal_transfer all i)"
  by (cases "check_internal_transfer all i")
     (simp add: classify_def Let_def split: option.splits)

lemma length_classify [simp]: "length (snd (classify all i)) = length all"
  using snd_classify_cases [of all i] by auto

lemma frame_classify:
  assumes "\<And>t other. f (mark_pair t other) = f t"
  shows "map f (snd (classify all i)) = map f all"
  using snd_classify_cases [of all i] frame_check_internal_transfer [of f all i, OF assms] by auto

lemma length_classify_step [simp]: "length (classify_step all i) = length all"
  by (cases "classify all i") (use length_classify [of all i] in \<open>simp add: classify_step_def\<close>)

lemma classify_confidence: "r_confidence (fst (classify all i)) \<in> {9 / 10, 7 / 10}"
  by (cases "check_internal_transfer all i"; cases "find_transfer_pair all i")
     (auto simp: classify_def Let_def check_income_patterns_def check_internal_transfer_def
        CONFIDENCE_HIGH_def CONFIDENCE_MEDIUM_def split: option.splits if_splits)

lemma classify_step_nth_same:
  assumes "i < length all"
  shows "flow_type (classify_step all i ! i) = Some (r_flow_type (fst (classify all i)))"
    and "category (classify_step all i ! i) = Some (r_category (fst (classify all i)))"
    and "confidence (classify_step all i ! i) = r_confidence (fst (classify all i))"
    and "user_verified (classify_step all i ! i) = user_verified (all ! i)"
    and "user_category (classify_step all i ! i) = user_category (all ! i)"
proof -
  obtain r all' where c: "classify all i = (r, all')" by (cases "classify all i")
  then have len: "length all' = length all" using length_classify [of all i] by simp
  have uv: "map user_verified all' = map user_verified all"
    using frame_classify [of user_verified all i] c by (simp add: mark_pair_def)
  have uc: "map user_category all' = map user_category all"
    using frame_classify [of user_category all i] c by (simp add: mark_pair_def)
  from uv have uv': "user_verified (all' ! i) = user_verified (all ! i)"
    using assms len by (metis nth_map)
  from uc have uc': "user_category (all' ! i) = user_category (all ! i)"
    using assms len by (metis nth_map)
  from c len assms uv' uc'
  show "flow_type (classify_step all i ! i) = Some (r_flow_type (fst (classify all i)))"
    and "category (classify_step all i ! i) = Some (r_category (fst (classify all i)))"
    and "confidence (classify_step all i ! i) = r_confidence (fst (classify all i))"
    and "user_verified (classify_step all i ! i) = user_verified (all ! i)"
    and "user_category (classify_step all i ! i) = user_category (all ! i)"
    by (simp_all add: classify_step_def)
qed

lemma classify_step_nth_other:
  assumes "j < length all" and "j \<noteq> i"
  shows "flow_type (classify_step all i ! j) = flow_type (all ! j)"
    and "category (classify_step all i ! j) = category (all ! j)"
    and "confidence (classify_step all i ! j) = confidence (all ! j)"
    and "user_verified (classify_step all i ! j) = user_verified (all ! j)"
    and "user_category (classify_step all i ! j) = user_category (all ! j)"
proof -
  obtain r all' where c: "classify all i = (r, all')" by (cases "classify all i")
  then have len: "length all' = length all" using length_classify [of all i] by simp
  have step: "classify_step all i ! j = all' ! j"
    using c assms(2) by (simp add: classify_step_def)
  have fr: "\<And>f. (\<And>t other. f (mark_pair t other) = f t) \<Longrightarrow> f (all' ! j) = f (all ! j)"
  proof -
    fix f :: "Transaction \<Rightarrow> 'b"
    assume "\<And>t other. f (mark_pair t other) = f t"
    then have "map f all' = map f all" using frame_classify [of f all i] c by simp
    then show "f (all' ! j) = f (all ! j)" using assms(1) len by (metis nth_map)
  qed
  show "flow_type (classify_step all i ! j) = flow_type (all ! j)"
    and "category (classify_step all i ! j) = category (all ! j)"
    and "confidence (classify_step all i ! j) = confidence (all ! j)"
    and "user_verified (classify_step all i ! j) = user_verified (all ! j)"
    and "user_category (classify_step all i ! j) = user_category (all ! j)"
    unfolding step by (rule fr, simp add: mark_pair_def)+
qed

lemma classify_step_auto_same:
  "i < length all \<Longrightarrow> auto_classified (classify_step all i ! i)"
  using classify_confidence [of all i]
  by (simp add: auto_classified_def classify_step_nth_same)

lemma classify_step_auto_other:
  "j < length all \<Longrightarrow> j \<noteq> i \<Longrightarrow> auto_classified (all ! j) \<Longrightarrow> auto_classified (classify_step all i ! j)"
  by (simp add: auto_classified_def classify_step_nth_other)

lemma length_foldl_classify_step [simp]:
  "length (foldl classify_step all idx) = length all"
  by (induction idx arbitrary: all) simp_all

lemma foldl_classify_step_auto:
  assumes "j < length all" and "\<forall>i \<in> set idx. i < length all"
    and "j \<in> set idx \<or> auto_classified (all ! j)"
  shows "auto_classified (foldl classify_step all idx ! j)"
  using assms
proof (induction idx arbitrary: all)
  case Nil
  then show ?case by simp
next
  case (Cons i idx)
  have i: "i < length all" using Cons.prems(2) by simp
  show ?case
  proof (cases "j = i")
    case True
    then have "auto_classified (classify_step all i ! j)"
      using classify_step_auto_same [OF i] by simp
    then show ?thesis using Cons.IH [of "classify_step all i"] Cons.prems by simp
  next
    case False
    then have "j \<in> set idx \<or> auto_classified (classify_step all i ! j)"
      using Cons.prems classify_step_auto_other [of j all i] by auto
    then show ?thesis using Cons.IH [of "classify_step all i"] Cons.prems by simp
  qed
qed

lemma foldl_classify_step_user:
  assumes "j < length all" and "\<forall>i \<in> set idx. i < length all"
  shows "user_verified (foldl classify_step all idx ! j) = user_verified (all ! j) \<and>
         user_category (foldl classify_step all idx ! j) = user_category (all ! j)"
  using assms
proof (induction idx arbitrary: all)
  case Nil
  then show ?case by simp
next
  case (Cons i idx)
  have i: "i < length all" using Cons.prems(2) by simp
  have "user_verified (classify_step all i ! j) = user_verified (all ! j) \<and>
        user_category (classify_step all i ! j) = user_category (all ! j)"
    using classify_step_nth_same [OF i] classify_step_nth_other [OF Cons.prems(1)]
    by (cases "j = i") simp_all
  then show ?case using Cons.IH [of "classify_step all i"] Cons.prems by simp
qed

lemma classify_all_auto:
  "i < length transactions \<Longrightarrow> auto_classified (classify_all transactions ! i)"
  unfolding classify_all_def by (rule foldl_classify_step_auto) simp_all

text \<open>The steps after a transaction's own leave its result fields alone.\<close>

lemma foldl_classify_step_keeps:
  assumes "j < length all" and "\<forall>i \<in> set idx. i < length all \<and> i \<noteq> j"
  shows "flow_type (foldl classify_step all idx ! j) = flow_type (all ! j) \<and>
         category (foldl classify_step all idx ! j) = category (all ! j) \<and>
         confidence (foldl classify_step all idx ! j) = confidence (all ! j)"
  using assms
proof (induction idx arbitrary: all)
  case Nil
  then show ?case by simp
next
  case (Cons i idx)
  have "j \<noteq> i" using Cons.prems(2) by auto
  then have "flow_type (classify_step all i ! j) = flow_type (all ! j) \<and>
        category (classify_step all i ! j) = category (all ! j) \<and>
        confidence (classify_step all i ! j) = confidence (all ! j)"
    using classify_step_nth_other [OF Cons.prems(1)] by simp
  then show ?case using Cons.IH [of "classify_step all i"] Cons.prems by simp
qed

lemma classify_all_split:
  assumes "i < length transactions"
  shows "classify_all transactions =
           foldl classify_step
             (classify_step (foldl classify_step transactions [0..<i]) i)
             [Suc i..<length transactions]"
proof -
  have "[0..<length transactions] = [0..<i] @ i # [Suc i..<length transactions]"
    using assms by (metis upt_conv_Cons upt_add_eq_append le_add_diff_inverse less_imp_le zero_le)
  then show ?thesis by (simp add: classify_all_def)
qed

text \<open>A pairing marks both members: the candidate found was unpaired, and afterwards
  \<open>has_pair\<close> is set on both and each \<open>pair_id\<close> names the other. The transaction that
  searches is not required to be unpaired.\<close>

lemma scan_pair_Some:
  "scan_pair t i j0 xs = Some j \<Longrightarrow>
     j0 \<le> j \<and> j < j0 + length xs \<and> j \<noteq> i \<and> \<not> has_pair (xs ! (j - j0))"
proof (induction xs arbitrary: j0)
  case Nil
  then show ?case by simp
next
  case (Cons other rest)
  show ?case
  proof (cases "scan_pair t i j0 (other # rest) = scan_pair t i (Suc j0) rest")
    case True
    with Cons.prems have "scan_pair t i (Suc j0) rest = Some j" by simp
    from Cons.IH [OF this] show ?thesis by (auto simp: Suc_diff_le)
  next
    case False
    with Cons.prems have "j = j0 \<and> j0 \<noteq> i \<and> \<not> has_pair other"
      by (auto split: if_splits)
    then show ?thesis by simp
  qed
qed

lemma find_transfer_pair_marks_both:
  assumes "i < length all" and "find_transfer_pair all i = (Some j, all')"
  shows "j < length all \<and> j \<noteq> i \<and> \<not> has_pair (all ! j) \<and>
         has_pair (all' ! i) \<and> has_pair (all' ! j) \<and>
         pair_id (all' ! i) = Some (date (all ! j), amount (all ! j)) \<and>
         pair_id (all' ! j) = Some (date (all ! i), amount (all ! i))"
proof -
  from assms(2) have sc: "scan_pair (all ! i) i 0 all = Some j"
    and all': "all' = all[i := mark_pair (all ! i) (all ! j), j := mark_pair (all ! j) (all ! i)]"
    by (auto simp: find_transfer_pair_def split: if_splits option.splits)
  from scan_pair_Some [OF sc] have j: "j < length all" "j \<noteq> i" "\<not> has_pair (all ! j)"
    by simp_all
  with assms(1) show ?thesis unfolding all' by (simp add: mark_pair_def)
qed

text \<open>\<open>_is_excluded\<close> holds exactly when some pattern of \<open>EXCLUDED_CATEGORIES\<close> is found in
  the upper-cased description.\<close>

lemma first_match_None_iff:
  "first_match tbl s = None \<longleftrightarrow> (\<forall>p \<in> set (concat (map snd tbl)). \<not> re_search p s)"
  by (induction tbl s rule: first_match.induct) (auto simp: list_ex_iff)

lemma compiled_patterns:
  "set (concat (map snd (compile_patterns d))) = re_compile ` set (concat (map snd d))"
  by (induction d) (auto simp: compile_patterns_def)

lemma is_excluded_iff:
  "is_excluded t \<longleftrightarrow>
     (\<exists>p \<in> set (concat (map snd EXCLUDED_CATEGORIES)).
        re_search (re_compile p) (upper (description t)))"
proof -
  have "is_excluded t \<longleftrightarrow>
          \<not> (\<forall>q \<in> set (concat (map snd excluded_patterns)).
                \<not> re_search q (upper (description t)))"
    unfolding is_excluded_def first_match_None_iff ..
  also have "\<dots> \<longleftrightarrow>
          (\<exists>p \<in> set (concat (map snd EXCLUDED_CATEGORIES)).
             re_search (re_compile p) (upper (description t)))"
    unfolding excluded_patterns_def compiled_patterns by blast
  finally show ?thesis .
qed

text \<open>\<open>classify\<close> gives EXPENSE to no transaction with a positive amount.\<close>

lemma classify_expense_nonpositive:
  "r_flow_type (fst (classify all i)) = EXPENSE \<Longrightarrow> amount (all ! i) \<le> 0"
  by (cases "check_internal_transfer all i"; cases "find_transfer_pair all i")
     (auto simp: classify_def Let_def check_income_patterns_def check_internal_transfer_def
        split: option.splits if_splits)

section \<open>The calculators: supporting facts\<close>

text \<open>The monthly formula holds field by field, with the expenses as the absolute value
  of the sum; that is the sum of the absolute amounts when no amount is positive.\<close>

lemma month_metrics_formula:
  assumes "calculate_month_metrics month_df key = Inr m"
  shows "net_cash_flow m = gross_income m - true_expenses m \<and>
         gross_income m = amount_sum (mask INCOME month_df) \<and>
         true_expenses m = \<bar>amount_sum (mask EXPENSE month_df)\<bar>"
  using assms by (auto simp: calculate_month_metrics_def Let_def split: if_splits)

lemma abs_sum_same_sign:
  "\<forall>t \<in> set df. amount t \<le> 0 \<Longrightarrow> \<bar>amount_sum df\<bar> = sum_list (map abs_amount df)"
proof (induction df)
  case Nil
  then show ?case by (simp add: amount_sum_def)
next
  case (Cons t df)
  then have "amount_sum df \<le> 0"
    unfolding amount_sum_def by (intro sum_list_nonpos) auto
  with Cons show ?case by (simp add: amount_sum_def abs_amount_def)
qed


lemma january_base_eval: "calculate_monthly_metrics january_batch = Inr [january_base]"
  by code_simp

lemma january_enhanced_eval:
  "calculate_enhanced_monthly_metrics january_batch january_interest = Inr [january_enhanced]"
  by code_simp

lemma enhance_fields:
  "savings_rate (enhance_metrics mi b) =
     (if gross_income b > 0
      then net_cash_flow (enhance_metrics mi b) / gross_income b * 100 else 0)"
  "expense_ratio (enhance_metrics mi b) =
     (if gross_income b > 0
      then true_expenses (enhance_metrics mi b) / gross_income b * 100 else 0)"
  "gross_income (enhance_metrics mi b) = gross_income b"
  "net_cash_flow (enhance_metrics mi b) = gross_income b - true_expenses (enhance_metrics mi b)"
  "true_expenses (enhance_metrics mi b) = true_expenses b + dict_get mi (month b) 0"
  "daily_burn_rate (enhance_metrics mi b) = true_expenses (enhance_metrics mi b) / 30"
  by (simp_all add: enhance_metrics_def Let_def)

lemma enhance_passes_through:
  "month (enhance_metrics mi b) = month b"
  "internal_transfers_out (enhance_metrics mi b) = internal_transfers_out b"
  "internal_transfers_in (enhance_metrics mi b) = internal_transfers_in b"
  "excluded_payments (enhance_metrics mi b) = excluded_payments b"
  "income_by_category (enhance_metrics mi b) = income_by_category b"
  "transaction_count (enhance_metrics mi b) = transaction_count b"
  "largest_income (enhance_metrics mi b) = largest_income b"
  "starting_balance (enhance_metrics mi b) = starting_balance b"
  "ending_balance (enhance_metrics mi b) = ending_balance b"
  "calculated_change (enhance_metrics mi b) = calculated_change b"
  "actual_change (enhance_metrics mi b) = actual_change b"
  "reconciliation_diff (enhance_metrics mi b) = reconciliation_diff b"
  by (simp_all add: enhance_metrics_def Let_def)

lemma enhanced_Inr:
  "calculate_enhanced_monthly_metrics ts mi = Inr es \<Longrightarrow>
     \<exists>bs. calculate_monthly_metrics ts = Inr bs \<and> es = map (enhance_metrics mi) bs"
  by (auto simp: calculate_enhanced_monthly_metrics_def split: sum.splits)

text \<open>The two ratios that the enhancement layer stores.\<close>

lemma enhanced_ratios:
  assumes "calculate_enhanced_monthly_metrics transactions monthly_mortgage_interest = Inr es"
    and "m \<in> set es"
  shows "savings_rate m =
           (if gross_income m > 0 then net_cash_flow m / gross_income m * 100 else 0) \<and>
         expense_ratio m =
           (if gross_income m > 0 then true_expenses m / gross_income m * 100 else 0) \<and>
         net_cash_flow m = gross_income m - true_expenses m"
proof -
  from enhanced_Inr [OF assms(1)] obtain bs where
    es: "es = map (enhance_metrics monthly_mortgage_interest) bs" by blast
  with assms(2) obtain b where m: "m = enhance_metrics monthly_mortgage_interest b" by auto
  show ?thesis unfolding m by (simp add: enhance_fields)
qed

lemma month_without_balance_raises:
  "\<not> list_ex (\<lambda>r. balance r \<noteq> 0) month_df \<Longrightarrow>
     calculate_month_metrics month_df key = Inl UnboundLocalError"
  by (simp add: calculate_month_metrics_def Let_def)

section \<open>Claims\<close>

text \<open>
  C2. After \<open>classify_all\<close>, every transaction of the batch has \<open>flow_type\<close> set to one of
  the four values INCOME, EXPENSE, INTERNAL_TRANSFER, EXCLUDED; none is left unset. The
  batch keeps its length, so position \<open>i\<close> ranges over every transaction of the batch.
\<close>

theorem classify_all_total:
  "i < length transactions \<Longrightarrow>
     length (classify_all transactions) = length transactions \<and>
     flow_type (classify_all transactions ! i)
       \<in> {Some INCOME, Some EXPENSE, Some INTERNAL_TRANSFER, Some EXCLUDED}"
proof -
  assume i: "i < length transactions"
  from classify_all_auto [OF i] obtain ft where
    "flow_type (classify_all transactions ! i) = Some ft"
    by (auto simp: auto_classified_def)
  then show ?thesis by (cases ft) (simp_all add: classify_all_def)
qed

theorem classify_all_total_witness:
  "0 < length card_batch \<and>
   length (classify_all card_batch) = length card_batch \<and>
   flow_type (classify_all card_batch ! 0)
     \<in> {Some INCOME, Some EXPENSE, Some INTERNAL_TRANSFER, Some EXCLUDED}"
proof -
  have h: "0 < length card_batch" by (simp add: card_batch_def)
  from h classify_all_total [OF h] show ?thesis by blast
qed

text \<open>
  C6. A transaction whose description matches at least one pattern of the table
  \<open>EXCLUDED_CATEGORIES\<close> (credit-card, loan or mortgage payment; matched on the upper-cased
  description, ignoring case) is classified EXCLUDED with confidence 0.9, whatever the
  sign of its amount, whatever else its description matches and whatever the rest of the
  batch holds; no pair is looked for, so the batch is returned as it was. Descriptions
  are ASCII strings here.
\<close>

theorem excluded_first:
  assumes "p \<in> set (concat (map snd EXCLUDED_CATEGORIES))"
    and "re_search (re_compile p) (upper (description (all ! i)))"
  shows "r_flow_type (fst (classify all i)) = EXCLUDED \<and>
         r_confidence (fst (classify all i)) = 9 / 10 \<and>
         snd (classify all i) = all"
proof -
  from assms have "is_excluded (all ! i)" unfolding is_excluded_iff by blast
  then show ?thesis by (simp add: classify_def Let_def CONFIDENCE_HIGH_def)
qed

text \<open>The example is a card payment that also matches a transfer pattern and has an
  opposite amount in the batch.\<close>

theorem excluded_first_witness:
  "''CHASE CARD.*PAYMENT'' \<in> set (concat (map snd EXCLUDED_CATEGORIES)) \<and>
   re_search (re_compile ''CHASE CARD.*PAYMENT'') (upper (description (card_batch ! 0))) \<and>
   first_match transfer_patterns (upper (description (card_batch ! 0))) = Some ''To_Savings'' \<and>
   fst (find_transfer_pair card_batch 0) = Some 1 \<and>
   r_flow_type (fst (classify card_batch 0)) = EXCLUDED \<and>
   r_confidence (fst (classify card_batch 0)) = 9 / 10 \<and>
   snd (classify card_batch 0) = card_batch"
proof -
  have m: "''CHASE CARD.*PAYMENT'' \<in> set (concat (map snd EXCLUDED_CATEGORIES))"
    by (simp add: EXCLUDED_CATEGORIES_def)
  have h: "re_search (re_compile ''CHASE CARD.*PAYMENT'') (upper (description (card_batch ! 0)))"
    by code_simp
  have t: "first_match transfer_patterns (upper (description (card_batch ! 0))) = Some ''To_Savings''"
    by code_simp
  have p: "fst (find_transfer_pair card_batch 0) = Some 1" by code_simp
  from m h t p excluded_first [OF m h] show ?thesis by blast
qed

text \<open>
  C5 (as amended). \<open>classify_all\<close> does not read \<open>user_verified\<close>. A pass over a batch leaves
  \<open>user_verified\<close> and \<open>user_category\<close> of every transaction unchanged, and overwrites
  \<open>flow_type\<close>, \<open>category\<close> and \<open>confidence\<close> of every transaction, user-verified or not,
  with the result \<open>classify\<close> returns for it when its turn comes; the confidence is then 0.9
  or 0.7, never the 1.0 of a manual override.
\<close>

theorem classify_all_overwrites:
  assumes "i < length transactions"
  shows "user_verified (classify_all transactions ! i) = user_verified (transactions ! i) \<and>
         user_category (classify_all transactions ! i) = user_category (transactions ! i) \<and>
         flow_type (classify_all transactions ! i)
           = Some (r_flow_type (fst (classify (foldl classify_step transactions [0..<i]) i))) \<and>
         category (classify_all transactions ! i)
           = Some (r_category (fst (classify (foldl classify_step transactions [0..<i]) i))) \<and>
         confidence (classify_all transactions ! i)
           = r_confidence (fst (classify (foldl classify_step transactions [0..<i]) i)) \<and>
         confidence (classify_all transactions ! i) \<in> {9 / 10, 7 / 10}"
proof -
  let ?before = "foldl classify_step transactions [0..<i]"
  have len: "i < length ?before" using assms by simp
  have idx: "\<forall>k \<in> set [0..<length transactions]. k < length transactions" by simp
  have later: "\<forall>k \<in> set [Suc i..<length transactions].
                 k < length (classify_step ?before i) \<and> k \<noteq> i" by simp
  have len': "i < length (classify_step ?before i)" using assms by simp
  from foldl_classify_step_keeps [OF len' later] classify_step_nth_same [OF len]
    classify_all_split [OF assms]
  have fields:
    "flow_type (classify_all transactions ! i) = Some (r_flow_type (fst (classify ?before i)))"
    "category (classify_all transactions ! i) = Some (r_category (fst (classify ?before i)))"
    "confidence (classify_all transactions ! i) = r_confidence (fst (classify ?before i))"
    by simp_all
  from foldl_classify_step_user [OF assms idx] fields classify_confidence [of ?before i]
  show ?thesis by (simp add: classify_all_def)
qed

theorem classify_all_overwrites_witness:
  "(0::nat) < length [verified_tx] \<and> user_verified verified_tx \<and> confidence verified_tx = 1 \<and>
   user_verified (classify_all [verified_tx] ! 0) \<and>
   confidence (classify_all [verified_tx] ! 0) \<in> {9 / 10, 7 / 10}"
proof -
  have k: "(0::nat) < length [verified_tx]" by simp
  have v: "user_verified verified_tx" "confidence verified_tx = 1"
    by (simp_all add: verified_tx_def reclassify_transaction_def)
  from classify_all_overwrites [OF k]
  have a: "user_verified (classify_all [verified_tx] ! 0) = user_verified ([verified_tx] ! 0)"
    and b: "confidence (classify_all [verified_tx] ! 0) \<in> {9 / 10, 7 / 10}"
    by blast+
  from a v have "user_verified (classify_all [verified_tx] ! 0)" by simp
  with b v k show ?thesis by blast
qed

text \<open>
  C5 as stated fails: a purchase that the user has reclassified as INCOME (user_verified,
  confidence 1.0) is EXPENSE with confidence 0.9 after the next pass.
\<close>

theorem verified_overwritten_counterexample:
  "user_verified verified_tx \<and> confidence verified_tx = 1 \<and>
   flow_type verified_tx = Some INCOME \<and>
   flow_type (classify_all [verified_tx] ! 0) = Some EXPENSE \<and>
   category (classify_all [verified_tx] ! 0) = Some ''Uncategorized_Expense'' \<and>
   confidence (classify_all [verified_tx] ! 0) = 9 / 10"
  by code_simp

text \<open>
  C4 at the batch 100 out (day 14), 100 in (day 15), 100 out (day 16). The first
  transaction pairs with the second, which marks the second as paired. When the second
  transaction's turn comes, its own \<open>has_pair\<close> is not looked at: it is paired again, with
  the third, and its \<open>pair_id\<close> is overwritten. After the pass the second transaction has
  taken part in two pairs, and the first and the third both point to it.
\<close>

theorem chain_paired_twice:
  "fst (find_transfer_pair chain_batch 0) = Some 1 \<and>
   has_pair (classify_step chain_batch 0 ! 1) \<and>
   fst (find_transfer_pair (classify_step chain_batch 0) 1) = Some 2 \<and>
   map pair_id (classify_all chain_batch)
     = [Some (mk_date 2024 1 15, 100), Some (mk_date 2024 1 16, - 100),
        Some (mk_date 2024 1 15, 100)]"
  by code_simp

text \<open>
  C7 at January 2024 (income 1000, transfers out 200, rent 400, mortgage interest 50).
  The claim's savings rate, (internal_transfers_out / gross_income) * 100, is 20, and
  the base calculator stores 20 in \<open>savings_rate\<close>; the enhancement layer stores 55 in
  the same field, which is (enhanced net cash flow / gross income) * 100. The expense
  ratio is 45, (enhanced true expenses / gross income) * 100, as the claim says.
\<close>

theorem enhanced_savings_rate_diverges:
  "calculate_enhanced_monthly_metrics january_batch january_interest = Inr [january_enhanced] \<and>
   calculate_monthly_metrics january_batch = Inr [january_base] \<and>
   internal_transfers_out january_enhanced / gross_income january_enhanced * 100 = 20 \<and>
   savings_rate january_base = 20 \<and>
   savings_rate january_enhanced = 55 \<and>
   net_cash_flow january_enhanced / gross_income january_enhanced * 100 = 55 \<and>
   expense_ratio january_enhanced = 45 \<and>
   true_expenses january_enhanced / gross_income january_enhanced * 100 = 45"
  using january_enhanced_eval january_base_eval
  by (simp add: january_enhanced_def january_base_def)

text \<open>
  C8 (as amended). The enhanced metrics of a month take month, gross income, transfers in
  and out, excluded payments, the income breakdown, the transaction count, the largest
  income and the five balance fields from the base metrics of that month unchanged; the
  daily burn rate is not passed through but set to the enhanced true expenses divided
  by 30.
\<close>

theorem enhanced_frame:
  assumes "calculate_monthly_metrics transactions = Inr bs"
    and "calculate_enhanced_monthly_metrics transactions monthly_mortgage_interest = Inr es"
    and "k < length bs"
  shows "length es = length bs \<and>
         month (es ! k) = month (bs ! k) \<and>
         gross_income (es ! k) = gross_income (bs ! k) \<and>
         internal_transfers_out (es ! k) = internal_transfers_out (bs ! k) \<and>
         internal_transfers_in (es ! k) = internal_transfers_in (bs ! k) \<and>
         excluded_payments (es ! k) = excluded_payments (bs ! k) \<and>
         income_by_category (es ! k) = income_by_category (bs ! k) \<and>
         transaction_count (es ! k) = transaction_count (bs ! k) \<and>
         largest_income (es ! k) = largest_income (bs ! k) \<and>
         starting_balance (es ! k) = starting_balance (bs ! k) \<and>
         ending_balance (es ! k) = ending_balance (bs ! k) \<and>
         calculated_change (es ! k) = calculated_change (bs ! k) \<and>
         actual_change (es ! k) = actual_change (bs ! k) \<and>
         reconciliation_diff (es ! k) = reconciliation_diff (bs ! k) \<and>
         daily_burn_rate (es ! k) = true_expenses (es ! k) / 30"
proof -
  from enhanced_Inr [OF assms(2)] assms(1)
  have es: "es = map (enhance_metrics monthly_mortgage_interest) bs" by auto
  then have "es ! k = enhance_metrics monthly_mortgage_interest (bs ! k)"
    using assms(3) by simp
  then show ?thesis using es by (simp add: enhance_passes_through enhance_fields)
qed

theorem enhanced_frame_witness:
  "calculate_monthly_metrics january_batch = Inr [january_base] \<and>
   calculate_enhanced_monthly_metrics january_batch january_interest = Inr [january_enhanced] \<and>
   (0::nat) < length [january_base] \<and>
   transaction_count ([january_enhanced] ! 0) = transaction_count ([january_base] ! 0) \<and>
   reconciliation_diff ([january_enhanced] ! 0) = reconciliation_diff ([january_base] ! 0) \<and>
   daily_burn_rate ([january_enhanced] ! 0) = true_expenses ([january_enhanced] ! 0) / 30"
proof -
  have k: "(0::nat) < length [january_base]" by simp
  from enhanced_frame [OF january_base_eval january_enhanced_eval k]
    january_base_eval january_enhanced_eval
  show ?thesis by simp
qed

text \<open>
  C8 as stated fails on \<open>daily_burn_rate\<close>: for January the base value is 400 / 31 and the
  enhanced value is 450 / 30.
\<close>

theorem enhanced_daily_burn_rate_counterexample:
  "calculate_monthly_metrics january_batch = Inr [january_base] \<and>
   calculate_enhanced_monthly_metrics january_batch january_interest = Inr [january_enhanced] \<and>
   daily_burn_rate january_base = 400 / 31 \<and>
   daily_burn_rate january_enhanced = 15 \<and>
   daily_burn_rate january_enhanced \<noteq> daily_burn_rate january_base"
  using january_base_eval january_enhanced_eval
  by (simp add: january_base_def january_enhanced_def)

text \<open>
  C9 (as amended). \<open>get_low_confidence_transactions\<close> returns exactly the transactions whose
  confidence is strictly below the threshold.
\<close>

theorem low_confidence_strict:
  "(t \<in> set (get_low_confidence_transactions transactions threshold)) =
     (t \<in> set transactions \<and> confidence t < threshold)"
  by (simp add: get_low_confidence_transactions_def)

theorem low_confidence_strict_witness:
  "medium_tx \<in> set [medium_tx] \<and> confidence medium_tx < 8 / 10 \<and>
   medium_tx \<in> set (get_low_confidence_transactions [medium_tx] (8 / 10))"
  using low_confidence_strict [of medium_tx "[medium_tx]" "8 / 10"]
  by (simp add: medium_tx_def CONFIDENCE_MEDIUM_def)

text \<open>
  C9 as stated fails: a transaction whose confidence equals the threshold is not returned.
\<close>

theorem low_confidence_boundary_counterexample:
  "confidence medium_tx = 7 / 10 \<and>
   get_low_confidence_transactions [medium_tx] (7 / 10) = []"
  by (simp add: get_low_confidence_transactions_def medium_tx_def CONFIDENCE_MEDIUM_def)

text \<open>
  C10. Over an empty transaction list \<open>get_summary_metrics\<close> returns the summary with period
  "N/A", months_span 1, transaction_count 0 and every total, average and ratio 0.
\<close>

theorem summary_of_empty:
  "get_summary_metrics [] =
     \<lparr>period = ''N/A'', total_income = 0, total_expenses = 0, total_net_cash_flow = 0,
      total_transfers_out = 0, total_excluded = 0, avg_monthly_income = 0,
      avg_monthly_expenses = 0, avg_monthly_net_cash_flow = 0, avg_monthly_savings = 0,
      overall_savings_rate = 0, overall_expense_ratio = 0,
      summary_transaction_count = 0, months_span = 1\<rparr>"
  by (simp add: get_summary_metrics_def)

text \<open>
  C3 at a month whose rows all have balance 0 (what the loader stores when the source has
  no balance): \<open>calculate_monthly_metrics\<close> does not return metrics for the month, it
  raises \<open>UnboundLocalError\<close>.
\<close>

theorem no_balance_month_raises:
  "calculate_monthly_metrics no_balance_batch = Inl UnboundLocalError"
  by code_simp

text \<open>
  C1 at a month with an expense of 100 and a refund of 30 booked as an expense: the
  month's \<open>true_expenses\<close> is 70, the absolute value of the sum, not 130, the sum of the
  absolute amounts that \<open>get_summary_metrics\<close> computes for the same transactions; the
  monthly net cash flow is - 70 where the summary has - 130.
\<close>

theorem refund_month_expenses:
  "map_sum id (map true_expenses) (calculate_monthly_metrics refund_batch) = Inr [70] \<and>
   map_sum id (map net_cash_flow) (calculate_monthly_metrics refund_batch) = Inr [- 70] \<and>
   sum_list (map abs_amount (mask EXPENSE refund_batch)) = 130 \<and>
   total_expenses (get_summary_metrics refund_batch) = 130 \<and>
   total_net_cash_flow (get_summary_metrics refund_batch) = - 130"
  by code_simp

end
